theory Spec2Isabelle
  imports Main "HOL-Library.AList" "HOL-Library.Sublist"
begin

section \<open>Python strings\<close>

text \<open>
  Strings are lists of 8-bit characters, and the model covers ASCII text:
  \<open>str.strip()\<close> removes the ASCII characters Python counts as whitespace from both
  ends, \<open>str.upper()\<close> maps the letters a-z to A-Z and leaves every other character
  alone, and \<open>sub in s\<close> is the substring test.
\<close>

definition isspace :: "char \<Rightarrow> bool" where
  "isspace c = (c \<in> set [CHR 0x09, CHR 0x0A, CHR 0x0B, CHR 0x0C, CHR 0x0D,
                          CHR 0x1C, CHR 0x1D, CHR 0x1E, CHR 0x1F, CHR '' ''])"

definition strip :: "string \<Rightarrow> string" where
  "strip s = rev (dropWhile isspace (rev (dropWhile isspace s)))"

definition upper_char :: "char \<Rightarrow> char" where
  "upper_char c =
     (case map_of (zip ''abcdefghijklmnopqrstuvwxyz'' ''ABCDEFGHIJKLMNOPQRSTUVWXYZ'') c of
        Some u \<Rightarrow> u
      | None \<Rightarrow> c)"

definition upper :: "string \<Rightarrow> string" where
  "upper s = map upper_char s"

fun str_contains :: "string \<Rightarrow> string \<Rightarrow> bool" where
  "str_contains sub [] = (sub = [])"
| "str_contains sub (c # s) = (prefix sub (c # s) \<or> str_contains sub s)"

section \<open>The parsed document\<close>

text \<open>
  A BeautifulSoup tree: a tag has a name, the list of its CSS classes (the
  whitespace-separated tokens of its class attribute) and its children; a
  \<open>NavigableString\<close> is a piece of text. An element is a node together with the chain
  of its ancestors, nearest first, which is what \<open>find_parent\<close> walks.
\<close>

datatype node = Tag string "string list" "node list" | NavigableString string

type_synonym element = "node \<times> node list"

fun descendants :: "node list \<Rightarrow> node \<Rightarrow> element list" where
  "descendants anc (NavigableString s) = []"
| "descendants anc (Tag n cs kids) =
     concat (map (\<lambda>k. (k, Tag n cs kids # anc) # descendants (Tag n cs kids # anc) k) kids)"

fun get_text :: "node \<Rightarrow> string" where
  "get_text (NavigableString s) = s"
| "get_text (Tag n cs kids) = concat (map get_text kids)"

fun is_tag :: "string \<Rightarrow> node \<Rightarrow> bool" where
  "is_tag nm (Tag n cs kids) = (n = nm)"
| "is_tag nm (NavigableString s) = False"

fun has_class :: "string list \<Rightarrow> node \<Rightarrow> bool" where
  "has_class cls (Tag n cs kids) = (\<exists>c \<in> set cls. c \<in> set cs)"
| "has_class cls (NavigableString s) = False"

text \<open>
  \<open>el.find_all(nm, class_=cls)\<close>: the descendants in document order, filtered by
  tag name and by class. A tag matches when one of its classes is one of \<open>cls\<close>
  (a single class name is the list of that one name).
\<close>

definition find_all :: "element \<Rightarrow> string \<Rightarrow> string list \<Rightarrow> element list" where
  "find_all el nm cls =
     filter (\<lambda>d. is_tag nm (fst d) \<and> has_class cls (fst d)) (descendants (snd el) (fst el))"

text \<open>\<open>el.find(nm)\<close>: the first descendant tag of that name, or None.\<close>

definition find_first :: "node \<Rightarrow> string \<Rightarrow> node option" where
  "find_first nd nm =
     (case filter (\<lambda>d. is_tag nm (fst d)) (descendants [] nd) of
        [] \<Rightarrow> None
      | d # _ \<Rightarrow> Some (fst d))"

text \<open>\<open>el.find_parent(nm)\<close>: the nearest ancestor tag of that name, or None.\<close>

definition find_parent :: "element \<Rightarrow> string \<Rightarrow> node option" where
  "find_parent el nm = List.find (is_tag nm) (snd el)"

text \<open>Python's \<open>a or b\<close> on two results that are a tag (always truthy) or None.\<close>

fun por :: "'a option \<Rightarrow> 'a option \<Rightarrow> 'a option" where
  "por (Some x) b = Some x"
| "por None b = b"

section \<open>RotowireScraper\<close>

datatype exn = Exception string

record response =
  status_code :: int
  resp_text :: string

text \<open>
  The two collaborators of the scraper: \<open>requests.get(url, headers, timeout)\<close>, which
  raises or returns a response, and the \<open>html.parser\<close> of BeautifulSoup, which raises
  or returns the top-level nodes of the document.
\<close>

record env =
  requests_get :: "string \<Rightarrow> (string \<times> string) list \<Rightarrow> nat \<Rightarrow> exn + response"
  html_parser :: "string \<Rightarrow> exn + node list"

text \<open>What the program prints, one constructor per \<open>print\<close> statement.\<close>

datatype message =
    League_not_supported string
  | Connecting string
  | Connection_failed int
  | Scraped nat nat
  | Scraping_error exn
  | Scan_initiated string
  | No_games_found
  | Report_header
  | Matchup_line string
  | Player_line string
  | Analysis_header
  | Sniper_alert string

datatype event = Print message | Http_get string

text \<open>
  The report is a Python dict: its keys in insertion order, each with its value. A write
  with \<open>AList.update\<close> replaces the value of a key that is present, in its place, and
  adds a new key at the end.
\<close>

type_synonym injury_report = "(string \<times> string list) list"

record RotowireScraper =
  headers :: "(string \<times> string) list"
  urls :: "(string \<times> string) list"

definition RotowireScraper_init :: RotowireScraper where
  "RotowireScraper_init =
     \<lparr> headers = [(''User-Agent'',
          ''Mozilla/5.0 (Windows NT 10.0; Win64; x64) AppleWebKit/537.36 (KHTML, like Gecko) Chrome/91.0.4472.124 Safari/537.36'')],
       urls = [(''NBA'', ''https://www.rotowire.com/basketball/nba-lineups.php''),
               (''NHL'', ''https://www.rotowire.com/hockey/nhl-lineups.php'')] \<rparr>"

text \<open>\<open>BeautifulSoup(text, 'html.parser')\<close>: the root object is a tag named \<open>[document]\<close>.\<close>

definition BeautifulSoup :: "env \<Rightarrow> string \<Rightarrow> exn + node" where
  "BeautifulSoup w txt =
     (case html_parser w txt of
        Inl e \<Rightarrow> Inl e
      | Inr kids \<Rightarrow> Inr (Tag ''[document]'' [] kids))"

text \<open>Lines 50-56: the team identifiers of a box.\<close>

definition team_divs_of :: "element \<Rightarrow> element list" where
  "team_divs_of box =
     (let team_divs = find_all box ''a'' [''lineup__team'']
      in if team_divs = [] then find_all box ''div'' [''lineup__team-abbr''] else team_divs)"

fun teams_loop :: "element list \<Rightarrow> string list \<Rightarrow> string list" where
  "teams_loop [] teams = teams"
| "teams_loop (t # ts) teams = teams_loop ts (teams @ [strip (get_text (fst t))])"

definition teams_of :: "element \<Rightarrow> string list" where
  "teams_of box = teams_loop (team_divs_of box) []"

text \<open>Lines 65-74: the injured players of a box.\<close>

definition descriptor :: "string \<Rightarrow> string \<Rightarrow> string" where
  "descriptor player_name status_text = player_name @ '' ('' @ status_text @ '')''"

definition injured_step :: "element \<Rightarrow> string list \<Rightarrow> string list" where
  "injured_step status_tag injured_players =
     (let status_text = upper (strip (get_text (fst status_tag)))
      in if status_text \<in> set [''OUT'', ''GTD'', ''DOUBTFUL'']
         then (case por (find_parent status_tag ''li'') (find_parent status_tag ''div'') of
                 None \<Rightarrow> injured_players
               | Some player_node \<Rightarrow>
                   (let player_name =
                          (case find_first player_node ''a'' of
                             Some a \<Rightarrow> strip (get_text a)
                           | None \<Rightarrow> ''Unknown'')
                    in injured_players @ [descriptor player_name status_text]))
         else injured_players)"

fun injured_loop :: "element list \<Rightarrow> string list \<Rightarrow> string list" where
  "injured_loop [] injured_players = injured_players"
| "injured_loop (status_tag # rest) injured_players =
     injured_loop rest (injured_step status_tag injured_players)"

definition status_tags :: "element \<Rightarrow> element list" where
  "status_tags box = find_all box ''span'' [''lineup__injuries-status'', ''lineup__status'']"

definition injured_players_of :: "element \<Rightarrow> string list" where
  "injured_players_of box = injured_loop (status_tags box) []"

text \<open>Lines 77-79: the key of a box, and the write into the report.\<close>

definition matchup_key :: "string list \<Rightarrow> string" where
  "matchup_key teams =
     (if length teams \<ge> 2 then teams ! 0 @ '' vs '' @ teams ! 1 else ''Unknown Matchup'')"

definition box_step :: "element \<Rightarrow> injury_report \<Rightarrow> injury_report" where
  "box_step box injury_report =
     (let teams = teams_of box;
          injured_players = injured_players_of box
      in if injured_players \<noteq> []
         then AList.update (matchup_key teams) injured_players injury_report
         else injury_report)"

fun boxes_loop :: "element list \<Rightarrow> injury_report \<Rightarrow> injury_report" where
  "boxes_loop [] injury_report = injury_report"
| "boxes_loop (box # rest) injury_report = boxes_loop rest (box_step box injury_report)"

definition lineup_boxes_of :: "node \<Rightarrow> element list" where
  "lineup_boxes_of soup = find_all (soup, []) ''div'' [''lineup__box'']"

text \<open>Lines 42-82: what the scraper does with a parsed document.\<close>

definition scrape :: "node \<Rightarrow> injury_report \<times> event list" where
  "scrape soup =
     (let lineup_boxes = lineup_boxes_of soup;
          injury_report = boxes_loop lineup_boxes []
      in (injury_report, [Print (Scraped (length lineup_boxes) (length injury_report))]))"

text \<open>
  Lines 36-82, the body of the \<open>try\<close>: an exception of a collaborator leaves it as
  \<open>Inl\<close>, after the request it made.
\<close>

definition try_body :: "RotowireScraper \<Rightarrow> env \<Rightarrow> string \<Rightarrow> event list \<times> (exn + injury_report)" where
  "try_body self w url =
     (case requests_get w url (headers self) 10 of
        Inl e \<Rightarrow> ([Http_get url], Inl e)
      | Inr response \<Rightarrow>
          if status_code response \<noteq> 200
          then ([Http_get url, Print (Connection_failed (status_code response))], Inr [])
          else (case BeautifulSoup w (resp_text response) of
                  Inl e \<Rightarrow> ([Http_get url], Inl e)
                | Inr soup \<Rightarrow> (Http_get url # snd (scrape soup), Inr (fst (scrape soup)))))"

definition fetch_injuries :: "RotowireScraper \<Rightarrow> env \<Rightarrow> string \<Rightarrow> injury_report \<times> event list" where
  "fetch_injuries self w league =
     (case map_of (urls self) (upper league) of
        None \<Rightarrow> ([], [Print (League_not_supported league)])
      | Some url \<Rightarrow>
          if url = [] then ([], [Print (League_not_supported league)])
          else (case try_body self w url of
                  (evs, Inr injury_report) \<Rightarrow> (injury_report, Print (Connecting league) # evs)
                | (evs, Inl e) \<Rightarrow> ([], Print (Connecting league) # evs @ [Print (Scraping_error e)])))"

section \<open>TheEdgeSystem\<close>

text \<open>Lines 129-132 and 135-138: the two loops over the report.\<close>

fun print_players :: "string list \<Rightarrow> event list" where
  "print_players [] = []"
| "print_players (p # ps) = Print (Player_line p) # print_players ps"

fun print_report :: "injury_report \<Rightarrow> event list" where
  "print_report [] = []"
| "print_report ((matchup, players) # rest) =
     Print (Matchup_line matchup) # print_players players @ print_report rest"

fun any_out :: "string list \<Rightarrow> bool" where
  "any_out [] = False"
| "any_out (p # ps) = (str_contains ''OUT'' p \<or> any_out ps)"

fun alpha_analysis :: "injury_report \<Rightarrow> event list" where
  "alpha_analysis [] = []"
| "alpha_analysis ((matchup, players) # rest) =
     (if any_out players then [Print (Sniper_alert matchup)] else []) @ alpha_analysis rest"

text \<open>
  \<open>scan_live_web\<close> stores the report in \<open>self.live_injuries\<close> and prints; the result
  is the stored report and what was printed and requested.
\<close>

definition scan_live_web :: "RotowireScraper \<Rightarrow> env \<Rightarrow> string \<Rightarrow> injury_report \<times> event list" where
  "scan_live_web scraper w league =
     (let (live_injuries, evs) = fetch_injuries scraper w league
      in if live_injuries = []
         then (live_injuries, Print (Scan_initiated league) # evs @ [Print No_games_found])
         else (live_injuries,
               Print (Scan_initiated league) # evs @ [Print Report_header]
                 @ print_report live_injuries @ [Print Analysis_header]
                 @ alpha_analysis live_injuries))"

section \<open>Example documents\<close>

text \<open>
  One lineup box with the team anchors LAL and BOS and a list item holding the anchor
  of LeBron James and a status element reading "out" between blanks.
\<close>

definition lebron_status :: node where
  "lebron_status = Tag ''span'' [''lineup__status''] [NavigableString '' out '']"

definition lebron_li :: node where
  "lebron_li =
     Tag ''li'' [''lineup__player''] [Tag ''a'' [] [NavigableString ''LeBron James''], lebron_status]"

definition lal_bos_list :: node where
  "lal_bos_list = Tag ''ul'' [''lineup__list''] [lebron_li]"

definition lal_bos_box :: node where
  "lal_bos_box =
     Tag ''div'' [''lineup__box'', ''is-nba'']
       [Tag ''a'' [''lineup__team'', ''is-visit''] [NavigableString '' LAL ''],
        Tag ''a'' [''lineup__team'', ''is-home''] [NavigableString ''BOS''],
        lal_bos_list]"

text \<open>
  One lineup box whose teams are given by abbreviation blocks only (NYR, BOS) and whose
  single status element reads "Questionable".
\<close>

definition shesterkin_status :: node where
  "shesterkin_status = Tag ''span'' [''lineup__injuries-status''] [NavigableString ''Questionable'']"

definition shesterkin_li :: node where
  "shesterkin_li = Tag ''li'' [] [Tag ''a'' [] [NavigableString ''Igor Shesterkin''], shesterkin_status]"

definition nyr_bos_box :: node where
  "nyr_bos_box =
     Tag ''div'' [''lineup__box'']
       [Tag ''div'' [''lineup__team-abbr''] [NavigableString ''NYR''],
        Tag ''div'' [''lineup__team-abbr''] [NavigableString ''BOS''],
        shesterkin_li]"

definition example_soup :: node where
  "example_soup = Tag ''[document]'' [] [lal_bos_box, nyr_bos_box]"

definition ok_response :: response where
  "ok_response = \<lparr> status_code = 200, resp_text = ''<html>'' \<rparr>"

definition example_env :: env where
  "example_env =
     \<lparr> requests_get = (\<lambda>url hdrs timeout. Inr ok_response),
       html_parser = (\<lambda>txt. Inr [lal_bos_box, nyr_bos_box]) \<rparr>"

text \<open>A page without any lineup box.\<close>

definition no_games_soup :: node where
  "no_games_soup = Tag ''[document]'' [] [Tag ''p'' [''lineup__none''] [NavigableString ''No games today'']]"

definition no_games_env :: env where
  "no_games_env =
     \<lparr> requests_get = (\<lambda>url hdrs timeout. Inr ok_response),
       html_parser = (\<lambda>txt. Inr [Tag ''p'' [''lineup__none''] [NavigableString ''No games today'']]) \<rparr>"

text \<open>
  A box whose only status element reads GTD, for a player whose name, as the page
  prints it, is in capitals and contains the letters OUT.
\<close>

definition stout_box :: node where
  "stout_box =
     Tag ''div'' [''lineup__box'']
       [Tag ''a'' [''lineup__team''] [NavigableString ''LAL''],
        Tag ''a'' [''lineup__team''] [NavigableString ''BOS''],
        Tag ''li'' []
          [Tag ''a'' [] [NavigableString ''J. STOUT''],
           Tag ''span'' [''lineup__status''] [NavigableString ''GTD'']]]"

definition stout_env :: env where
  "stout_env =
     \<lparr> requests_get = (\<lambda>url hdrs timeout. Inr ok_response),
       html_parser = (\<lambda>txt. Inr [stout_box]) \<rparr>"

text \<open>Two boxes for the same pair of teams on one page.\<close>

definition rematch_box :: node where
  "rematch_box =
     Tag ''div'' [''lineup__box'']
       [Tag ''a'' [''lineup__team''] [NavigableString ''LAL''],
        Tag ''a'' [''lineup__team''] [NavigableString ''BOS''],
        Tag ''li'' []
          [Tag ''a'' [] [NavigableString ''Jayson Tatum''],
           Tag ''span'' [''lineup__status''] [NavigableString ''Gtd'']]]"

definition doubleheader_soup :: node where
  "doubleheader_soup = Tag ''[document]'' [] [lal_bos_box, rematch_box]"

text \<open>Three ways for a fetch to fail: the request raises, the server refuses, the parser raises.\<close>

definition timeout_env :: env where
  "timeout_env =
     \<lparr> requests_get = (\<lambda>url hdrs timeout. Inl (Exception ''Read timed out'')),
       html_parser = (\<lambda>txt. Inr []) \<rparr>"

definition forbidden_env :: env where
  "forbidden_env =
     \<lparr> requests_get = (\<lambda>url hdrs timeout. Inr \<lparr> status_code = 403, resp_text = ''Forbidden'' \<rparr>),
       html_parser = (\<lambda>txt. Inr []) \<rparr>"

definition bad_markup_env :: env where
  "bad_markup_env =
     \<lparr> requests_get = (\<lambda>url hdrs timeout. Inr ok_response),
       html_parser = (\<lambda>txt. Inl (Exception ''bad markup'')) \<rparr>"

section \<open>The loops as list functions\<close>




lemma boxes_loop_app: "boxes_loop (xs @ ys) rep = boxes_loop ys (boxes_loop xs rep)"
  by (induction xs arbitrary: rep) simp_all

section \<open>Ancestors of a descendant\<close>





section \<open>The report after the loop over the boxes\<close>

lemma boxes_loop_keys:
  "fst ` set (boxes_loop bs rep) =
     fst ` set rep \<union> (\<lambda>b. matchup_key (teams_of b)) ` {b \<in> set bs. injured_players_of b \<noteq> []}"
proof (induction bs arbitrary: rep)
  case Nil
  then show ?case by simp
next
  case (Cons b bs)
  have step: "fst ` set (box_step b rep) =
      fst ` set rep \<union> (\<lambda>b. matchup_key (teams_of b)) ` {c \<in> {b}. injured_players_of c \<noteq> []}"
    by (auto simp: box_step_def Let_def dom_update)
  have split: "{c \<in> set (b # bs). injured_players_of c \<noteq> []} =
      {c \<in> {b}. injured_players_of c \<noteq> []} \<union> {c \<in> set bs. injured_players_of c \<noteq> []}"
    by auto
  show ?case
    unfolding boxes_loop.simps Cons.IH step split image_Un by (simp add: Un_assoc)
qed

lemma update_values:
  "kv \<in> set (AList.update k v al) \<Longrightarrow> kv = (k, v) \<or> kv \<in> set al"
  by (induction al) (auto split: if_splits)

lemma boxes_loop_values:
  "\<forall>kv \<in> set rep. snd kv \<noteq> [] \<Longrightarrow> kv \<in> set (boxes_loop bs rep) \<Longrightarrow> snd kv \<noteq> []"
proof (induction bs arbitrary: rep)
  case Nil
  then show ?case by simp
next
  case (Cons b bs)
  have "\<forall>kv \<in> set (box_step b rep). snd kv \<noteq> []"
    using Cons.prems(1) by (auto simp: box_step_def Let_def dest!: update_values)
  from Cons.IH [OF this] Cons.prems(2) show ?case by simp
qed

lemma boxes_loop_distinct:
  "distinct (map fst rep) \<Longrightarrow> distinct (map fst (boxes_loop bs rep))"
  by (induction bs arbitrary: rep) (simp_all add: box_step_def Let_def distinct_update)

lemma box_step_other:
  "matchup_key (teams_of b) \<noteq> k \<or> injured_players_of b = [] \<Longrightarrow>
     map_of (box_step b rep) k = map_of rep k"
  by (auto simp: box_step_def Let_def update_conv')

lemma boxes_loop_untouched:
  "\<forall>b \<in> set bs. matchup_key (teams_of b) = k \<longrightarrow> injured_players_of b = [] \<Longrightarrow>
     map_of (boxes_loop bs rep) k = map_of rep k"
proof (induction bs arbitrary: rep)
  case Nil
  then show ?case by simp
next
  case (Cons b bs)
  have "map_of (box_step b rep) k = map_of rep k"
    using Cons.prems by (intro box_step_other) auto
  with Cons show ?case by simp
qed

lemma boxes_loop_last_write:
  assumes "injured_players_of b \<noteq> []"
    and "\<forall>c \<in> set post. matchup_key (teams_of c) = matchup_key (teams_of b) \<longrightarrow> injured_players_of c = []"
  shows "map_of (boxes_loop (pre @ b # post) rep) (matchup_key (teams_of b)) = Some (injured_players_of b)"
proof -
  have "map_of (box_step b (boxes_loop pre rep)) (matchup_key (teams_of b)) = Some (injured_players_of b)"
    using assms(1) by (simp add: box_step_def Let_def update_conv')
  then show ?thesis
    using boxes_loop_untouched [OF assms(2)] by (simp add: boxes_loop_app)
qed

section \<open>The key of a matchup\<close>

text \<open>
  Claim C1. A lineup box of the document whose injury list is not empty writes its
  injury list under one key: the key is in the report that the scraper returns, it is
  the first team, the text " vs " and the second team when two or more team
  identifiers were resolved, and "Unknown Matchup" when fewer than two were.
\<close>

theorem matchup_key_inserted:
  assumes "box \<in> set (lineup_boxes_of soup)" and "injured_players_of box \<noteq> []"
  shows "box_step box injury_report =
           AList.update (matchup_key (teams_of box)) (injured_players_of box) injury_report
       \<and> matchup_key (teams_of box) \<in> fst ` set (fst (scrape soup))
       \<and> (length (teams_of box) \<ge> 2 \<longrightarrow>
            matchup_key (teams_of box) = teams_of box ! 0 @ '' vs '' @ teams_of box ! 1)
       \<and> (length (teams_of box) < 2 \<longrightarrow> matchup_key (teams_of box) = ''Unknown Matchup'')"
proof -
  have step: "box_step box injury_report =
      AList.update (matchup_key (teams_of box)) (injured_players_of box) injury_report"
    using assms(2) by (simp add: box_step_def Let_def)
  have "matchup_key (teams_of box) \<in> fst ` set (boxes_loop (lineup_boxes_of soup) [])"
    unfolding boxes_loop_keys using assms by blast
  then have "matchup_key (teams_of box) \<in> fst ` set (fst (scrape soup))"
    by (simp add: scrape_def Let_def)
  with step show ?thesis by (simp add: matchup_key_def)
qed

theorem matchup_key_inserted_witness:
  "(lal_bos_box, [example_soup]) \<in> set (lineup_boxes_of example_soup)
   \<and> injured_players_of (lal_bos_box, [example_soup]) \<noteq> []
   \<and> teams_of (lal_bos_box, [example_soup]) = [''LAL'', ''BOS'']
   \<and> box_step (lal_bos_box, [example_soup]) [] = [(''LAL vs BOS'', [''LeBron James (OUT)''])]
   \<and> ''LAL vs BOS'' \<in> fst ` set (fst (scrape example_soup))"
proof -
  have h1: "(lal_bos_box, [example_soup]) \<in> set (lineup_boxes_of example_soup)" by code_simp
  have h2: "injured_players_of (lal_bos_box, [example_soup]) \<noteq> []" by code_simp
  have t: "teams_of (lal_bos_box, [example_soup]) = [''LAL'', ''BOS'']" by code_simp
  have i: "injured_players_of (lal_bos_box, [example_soup]) = [''LeBron James (OUT)'']" by code_simp
  show ?thesis
    using h1 h2 matchup_key_inserted [OF h1 h2, of "[]"] by (simp add: t i matchup_key_def)
qed

section \<open>No empty injury lists\<close>

text \<open>
  Claim C3. A box whose injury list is empty after the status filter leaves the report
  as it was, and every value of the report that \<open>fetch_injuries\<close> returns is a
  non-empty list.
\<close>

theorem no_empty_entries:
  "(injured_players_of box = [] \<longrightarrow> box_step box injury_report = injury_report)
   \<and> (\<forall>kv \<in> set (fst (fetch_injuries self w league)). snd kv \<noteq> [])"
proof -
  have "snd kv \<noteq> []" if "kv \<in> set (fst (scrape soup))" for kv soup
    using boxes_loop_values [of "[]" kv "lineup_boxes_of soup"] that
    by (simp add: scrape_def Let_def)
  then have "\<forall>kv \<in> set (fst (fetch_injuries self w league)). snd kv \<noteq> []"
    by (auto simp: fetch_injuries_def try_body_def split: option.splits sum.splits if_splits prod.splits)
  then show ?thesis by (simp add: box_step_def Let_def)
qed

theorem no_empty_entries_witness:
  "injured_players_of (nyr_bos_box, [example_soup]) = []
   \<and> box_step (nyr_bos_box, [example_soup]) [(''LAL vs BOS'', [''LeBron James (OUT)''])]
       = [(''LAL vs BOS'', [''LeBron James (OUT)''])]
   \<and> (''LAL vs BOS'', [''LeBron James (OUT)'']) \<in> set (fst (fetch_injuries RotowireScraper_init example_env ''NBA''))
   \<and> [''LeBron James (OUT)''] \<noteq> []"
proof -
  have h1: "injured_players_of (nyr_bos_box, [example_soup]) = []" by code_simp
  have h2: "(''LAL vs BOS'', [''LeBron James (OUT)'']) \<in> set (fst (fetch_injuries RotowireScraper_init example_env ''NBA''))"
    by code_simp
  show ?thesis
    using h1 h2 no_empty_entries [of "(nyr_bos_box, [example_soup])" "[(''LAL vs BOS'', [''LeBron James (OUT)''])]"
       RotowireScraper_init example_env "''NBA''"]
    by auto
qed

section \<open>The status filter\<close>



section \<open>The player of a qualifying status element\<close>



text \<open>
  Away from a lineup box the step has one more branch: a status element with neither a
  list item nor a block among its ancestors is dropped by the guard on the player node.
  Inside a lineup box that branch is never taken, as \<open>status_tag_has_div\<close> shows.
\<close>

lemma injured_step_without_ancestor:
  assumes "find_parent status_tag ''li'' = None" and "find_parent status_tag ''div'' = None"
  shows "injured_step status_tag injured_players = injured_players"
  using assms by (simp add: injured_step_def Let_def)



section \<open>A document without lineup boxes\<close>

text \<open>
  Claim C7. When the document has no element matching the lineup box class, the scraper
  returns the empty report; \<open>fetch_injuries\<close> then ends normally with the message
  that counts zero games, and prints neither of its two error messages.
\<close>

theorem zero_containers_empty_report:
  assumes "lineup_boxes_of soup = []"
  shows "scrape soup = ([], [Print (Scraped 0 0)])
     \<and> (\<forall>response. requests_get w url (headers self) 10 = Inr response
          \<and> status_code response = 200 \<and> BeautifulSoup w (resp_text response) = Inr soup
          \<and> map_of (urls self) (upper league) = Some url \<and> url \<noteq> [] \<longrightarrow>
          fetch_injuries self w league
            = ([], [Print (Connecting league), Http_get url, Print (Scraped 0 0)]))"
  using assms by (simp add: scrape_def Let_def fetch_injuries_def try_body_def)

theorem zero_containers_empty_report_witness:
  "lineup_boxes_of no_games_soup = []
   \<and> scrape no_games_soup = ([], [Print (Scraped 0 0)])
   \<and> fetch_injuries RotowireScraper_init no_games_env ''NBA''
       = ([], [Print (Connecting ''NBA''),
               Http_get ''https://www.rotowire.com/basketball/nba-lineups.php'',
               Print (Scraped 0 0)])"
proof -
  have h: "lineup_boxes_of no_games_soup = []" by code_simp
  have g: "requests_get no_games_env ''https://www.rotowire.com/basketball/nba-lineups.php''
      (headers RotowireScraper_init) 10 = Inr ok_response" by (simp add: no_games_env_def)
  have s: "status_code ok_response = 200" by (simp add: ok_response_def)
  have b: "BeautifulSoup no_games_env (resp_text ok_response) = Inr no_games_soup"
    by (simp add: BeautifulSoup_def no_games_env_def no_games_soup_def)
  have u: "map_of (urls RotowireScraper_init) (upper ''NBA'')
      = Some ''https://www.rotowire.com/basketball/nba-lineups.php''" by code_simp
  show ?thesis
    using h g s b u zero_containers_empty_report [OF h, of no_games_env
        "''https://www.rotowire.com/basketball/nba-lineups.php''" RotowireScraper_init "''NBA''"]
    by simp
qed

section \<open>The team identifiers\<close>



section \<open>The alert of the live scan\<close>

lemma str_contains_iff: "str_contains sub s \<longleftrightarrow> (\<exists>pre suf. s = pre @ sub @ suf)"
proof (induction s)
  case Nil
  then show ?case by auto
next
  case (Cons c s)
  have "(\<exists>pre suf. c # s = pre @ sub @ suf) \<longleftrightarrow>
      (\<exists>suf. c # s = sub @ suf) \<or> (\<exists>pre suf. s = pre @ sub @ suf)"
  proof
    assume "\<exists>pre suf. c # s = pre @ sub @ suf"
    then obtain pre suf where e: "c # s = pre @ sub @ suf" by blast
    show "(\<exists>suf. c # s = sub @ suf) \<or> (\<exists>pre suf. s = pre @ sub @ suf)"
    proof (cases pre)
      case Nil
      with e show ?thesis by auto
    next
      case (Cons a pre')
      with e have "s = pre' @ sub @ suf" by simp
      then show ?thesis by blast
    qed
  next
    assume "(\<exists>suf. c # s = sub @ suf) \<or> (\<exists>pre suf. s = pre @ sub @ suf)"
    then show "\<exists>pre suf. c # s = pre @ sub @ suf"
    proof
      assume "\<exists>suf. c # s = sub @ suf"
      then obtain suf where "c # s = [] @ sub @ suf" by auto
      then show ?thesis by blast
    next
      assume "\<exists>pre suf. s = pre @ sub @ suf"
      then obtain pre suf where "c # s = (c # pre) @ sub @ suf" by auto
      then show ?thesis by blast
    qed
  qed
  with Cons show ?case by (simp add: prefix_def)
qed

lemma any_out_iff: "any_out players \<longleftrightarrow> (\<exists>p \<in> set players. str_contains ''OUT'' p)"
  by (induction players) simp_all

lemma alert_in_alpha_analysis:
  "Print (Sniper_alert m) \<in> set (alpha_analysis r) \<longleftrightarrow>
     (\<exists>players. (m, players) \<in> set r \<and> any_out players)"
  by (induction r rule: alpha_analysis.induct) auto

lemma no_alert_in_print_players: "Print (Sniper_alert m) \<notin> set (print_players ps)"
  by (induction ps) simp_all

lemma no_alert_in_print_report: "Print (Sniper_alert m) \<notin> set (print_report r)"
  by (induction r rule: print_report.induct) (simp_all add: no_alert_in_print_players)

lemma no_alert_in_fetch: "Print (Sniper_alert m) \<notin> set (snd (fetch_injuries scraper w league))"
  by (auto simp: fetch_injuries_def try_body_def scrape_def Let_def
      split: option.splits sum.splits if_splits prod.splits)

text \<open>
  Claim C5, as the code has it. The scan prints the alert for a matchup exactly when one
  of the descriptors of that matchup contains the letters OUT somewhere, in the player
  name as well as in the status. So every matchup with a descriptor of status OUT gets
  the alert.
\<close>

theorem sniper_alert_on_keyword:
  "(Print (Sniper_alert m) \<in> set (snd (scan_live_web scraper w league)) \<longleftrightarrow>
      (\<exists>players. (m, players) \<in> set (fst (fetch_injuries scraper w league))
         \<and> (\<exists>p \<in> set players. \<exists>pre suf. p = pre @ ''OUT'' @ suf)))
   \<and> ((m, players) \<in> set (fst (fetch_injuries scraper w league))
        \<and> descriptor player_name ''OUT'' \<in> set players \<longrightarrow>
      Print (Sniper_alert m) \<in> set (snd (scan_live_web scraper w league)))"
proof -
  obtain r evs where f: "fetch_injuries scraper w league = (r, evs)" by (cases "fetch_injuries scraper w league")
  have evs: "Print (Sniper_alert m) \<notin> set evs"
    using no_alert_in_fetch [of m scraper w league] f by simp
  have "Print (Sniper_alert m) \<in> set (snd (scan_live_web scraper w league)) \<longleftrightarrow>
      (\<exists>players. (m, players) \<in> set r \<and> any_out players)"
  proof (cases "r = []")
    case True
    with f evs show ?thesis by (simp add: scan_live_web_def)
  next
    case False
    with f evs show ?thesis
      by (simp add: scan_live_web_def no_alert_in_print_report alert_in_alpha_analysis)
  qed
  then have iff: "Print (Sniper_alert m) \<in> set (snd (scan_live_web scraper w league)) \<longleftrightarrow>
      (\<exists>players. (m, players) \<in> set (fst (fetch_injuries scraper w league))
         \<and> (\<exists>p \<in> set players. \<exists>pre suf. p = pre @ ''OUT'' @ suf))"
    using f by (simp add: any_out_iff str_contains_iff)
  have "\<exists>pre suf. descriptor player_name ''OUT'' = pre @ ''OUT'' @ suf"
  proof -
    have "descriptor player_name ''OUT'' = (player_name @ '' ('') @ ''OUT'' @ '')''"
      by (simp add: descriptor_def)
    then show ?thesis by blast
  qed
  with iff show ?thesis by blast
qed

theorem sniper_alert_on_keyword_witness:
  "(''LAL vs BOS'', [''LeBron James (OUT)'']) \<in> set (fst (fetch_injuries RotowireScraper_init example_env ''NBA''))
   \<and> descriptor ''LeBron James'' ''OUT'' \<in> set [''LeBron James (OUT)'']
   \<and> Print (Sniper_alert ''LAL vs BOS'') \<in> set (snd (scan_live_web RotowireScraper_init example_env ''NBA''))"
proof -
  have h1: "(''LAL vs BOS'', [''LeBron James (OUT)'']) \<in> set (fst (fetch_injuries RotowireScraper_init example_env ''NBA''))"
    by code_simp
  have h2: "descriptor ''LeBron James'' ''OUT'' \<in> set [''LeBron James (OUT)'']" by code_simp
  show ?thesis
    using h1 h2 sniper_alert_on_keyword [of "''LAL vs BOS''" RotowireScraper_init example_env "''NBA''"
        "[''LeBron James (OUT)'']" "''LeBron James''"]
    by blast
qed

text \<open>
  Claim C5, as it is stated, fails: on the page with the player J. STOUT, whose status is
  GTD, the report has the single descriptor "J. STOUT (GTD)", no descriptor has the
  status OUT, and the alert is printed.
\<close>

theorem sniper_alert_status_counterexample:
  "fst (scan_live_web RotowireScraper_init stout_env ''NBA'')
     = [(''LAL vs BOS'', [descriptor ''J. STOUT'' ''GTD''])]
   \<and> ''GTD'' \<noteq> ''OUT''
   \<and> Print (Sniper_alert ''LAL vs BOS'') \<in> set (snd (scan_live_web RotowireScraper_init stout_env ''NBA''))"
  by code_simp

section \<open>Failures of the fetch\<close>

text \<open>
  Claim C6. For a supported league, when the request raises, when the response has a
  status code other than 200, or when the parser raises, \<open>fetch_injuries\<close> returns the
  empty report and prints a warning after the request; whatever exception leaves the
  body of the \<open>try\<close> is turned into that result. The function returns a report in
  every case.
\<close>

theorem fetch_failure_empty_report:
  assumes "map_of (urls self) (upper league) = Some url" and "url \<noteq> []"
  shows "(requests_get w url (headers self) 10 = Inl e \<longrightarrow>
            fetch_injuries self w league
              = ([], [Print (Connecting league), Http_get url, Print (Scraping_error e)]))
       \<and> (requests_get w url (headers self) 10 = Inr response \<and> status_code response \<noteq> 200 \<longrightarrow>
            fetch_injuries self w league
              = ([], [Print (Connecting league), Http_get url,
                      Print (Connection_failed (status_code response))]))
       \<and> (requests_get w url (headers self) 10 = Inr response \<and> status_code response = 200
            \<and> BeautifulSoup w (resp_text response) = Inl e \<longrightarrow>
            fetch_injuries self w league
              = ([], [Print (Connecting league), Http_get url, Print (Scraping_error e)]))
       \<and> (try_body self w url = (evs, Inl e) \<longrightarrow>
            fetch_injuries self w league
              = ([], Print (Connecting league) # evs @ [Print (Scraping_error e)]))"
  using assms by (simp add: fetch_injuries_def try_body_def)

theorem fetch_failure_empty_report_witness:
  "map_of (urls RotowireScraper_init) (upper ''nhl'') = Some ''https://www.rotowire.com/hockey/nhl-lineups.php''
   \<and> fetch_injuries RotowireScraper_init timeout_env ''nhl''
       = ([], [Print (Connecting ''nhl''), Http_get ''https://www.rotowire.com/hockey/nhl-lineups.php'',
               Print (Scraping_error (Exception ''Read timed out''))])
   \<and> fetch_injuries RotowireScraper_init forbidden_env ''nhl''
       = ([], [Print (Connecting ''nhl''), Http_get ''https://www.rotowire.com/hockey/nhl-lineups.php'',
               Print (Connection_failed 403)])
   \<and> fetch_injuries RotowireScraper_init bad_markup_env ''nhl''
       = ([], [Print (Connecting ''nhl''), Http_get ''https://www.rotowire.com/hockey/nhl-lineups.php'',
               Print (Scraping_error (Exception ''bad markup''))])"
proof -
  have u: "map_of (urls RotowireScraper_init) (upper ''nhl'') = Some ''https://www.rotowire.com/hockey/nhl-lineups.php''"
    by code_simp
  have n: "''https://www.rotowire.com/hockey/nhl-lineups.php'' \<noteq> []" by simp
  show ?thesis
    using u
      fetch_failure_empty_report [OF u n, of timeout_env "Exception ''Read timed out''"]
      fetch_failure_empty_report [OF u n, of forbidden_env _ "\<lparr> status_code = 403, resp_text = ''Forbidden'' \<rparr>"]
      fetch_failure_empty_report [OF u n, of bad_markup_env "Exception ''bad markup''" ok_response]
    by (simp add: timeout_env_def forbidden_env_def bad_markup_env_def ok_response_def BeautifulSoup_def)
qed

section \<open>Two boxes with one label\<close>

text \<open>
  Claim C9. When two lineup boxes of the document, each with at least one injury entry,
  have the same matchup label, and no box after the second one writes under that label,
  the returned report holds under that label the injury list of the second box and no
  other list: the later write replaces the earlier one.
\<close>

theorem later_matchup_overwrites:
  assumes "lineup_boxes_of soup = pre @ b1 # mid @ b2 # post"
    and "matchup_key (teams_of b1) = matchup_key (teams_of b2)"
    and "injured_players_of b1 \<noteq> []" and "injured_players_of b2 \<noteq> []"
    and "\<forall>c \<in> set post. matchup_key (teams_of c) = matchup_key (teams_of b2) \<longrightarrow> injured_players_of c = []"
  shows "map_of (fst (scrape soup)) (matchup_key (teams_of b1)) = Some (injured_players_of b2)
       \<and> {v. (matchup_key (teams_of b1), v) \<in> set (fst (scrape soup))} = {injured_players_of b2}"
proof -
  have boxes: "lineup_boxes_of soup = (pre @ b1 # mid) @ b2 # post"
    using assms(1) by simp
  have m: "map_of (fst (scrape soup)) (matchup_key (teams_of b2)) = Some (injured_players_of b2)"
    unfolding scrape_def Let_def fst_conv boxes
    by (rule boxes_loop_last_write [OF assms(4,5)])
  have d: "distinct (map fst (fst (scrape soup)))"
    by (simp add: scrape_def Let_def boxes_loop_distinct)
  have "(matchup_key (teams_of b2), v) \<in> set (fst (scrape soup)) \<longleftrightarrow> v = injured_players_of b2" for v
    using m map_of_eq_Some_iff [OF d, of "matchup_key (teams_of b2)" v] by auto
  then have "{v. (matchup_key (teams_of b2), v) \<in> set (fst (scrape soup))} = {injured_players_of b2}"
    by auto
  with m assms(2) show ?thesis by simp
qed

theorem later_matchup_overwrites_witness:
  "lineup_boxes_of doubleheader_soup
     = [] @ (lal_bos_box, [doubleheader_soup]) # [] @ (rematch_box, [doubleheader_soup]) # []
   \<and> matchup_key (teams_of (lal_bos_box, [doubleheader_soup])) = ''LAL vs BOS''
   \<and> matchup_key (teams_of (rematch_box, [doubleheader_soup])) = ''LAL vs BOS''
   \<and> injured_players_of (lal_bos_box, [doubleheader_soup]) = [''LeBron James (OUT)'']
   \<and> injured_players_of (rematch_box, [doubleheader_soup]) = [''Jayson Tatum (GTD)'']
   \<and> map_of (fst (scrape doubleheader_soup)) ''LAL vs BOS'' = Some [''Jayson Tatum (GTD)'']
   \<and> {v. (''LAL vs BOS'', v) \<in> set (fst (scrape doubleheader_soup))} = {[''Jayson Tatum (GTD)'']}"
proof -
  have h1: "lineup_boxes_of doubleheader_soup
     = [] @ (lal_bos_box, [doubleheader_soup]) # [] @ (rematch_box, [doubleheader_soup]) # []"
    by code_simp
  have k1: "matchup_key (teams_of (lal_bos_box, [doubleheader_soup])) = ''LAL vs BOS''" by code_simp
  have k2: "matchup_key (teams_of (rematch_box, [doubleheader_soup])) = ''LAL vs BOS''" by code_simp
  have i1: "injured_players_of (lal_bos_box, [doubleheader_soup]) = [''LeBron James (OUT)'']" by code_simp
  have i2: "injured_players_of (rematch_box, [doubleheader_soup]) = [''Jayson Tatum (GTD)'']" by code_simp
  have h2: "matchup_key (teams_of (lal_bos_box, [doubleheader_soup]))
      = matchup_key (teams_of (rematch_box, [doubleheader_soup]))" using k1 k2 by simp
  have h3: "injured_players_of (lal_bos_box, [doubleheader_soup]) \<noteq> []" using i1 by simp
  have h4: "injured_players_of (rematch_box, [doubleheader_soup]) \<noteq> []" using i2 by simp
  have h5: "\<forall>c \<in> set []. matchup_key (teams_of c) = matchup_key (teams_of (rematch_box, [doubleheader_soup]))
      \<longrightarrow> injured_players_of c = []" by simp
  show ?thesis
    using h1 k1 k2 i1 i2 later_matchup_overwrites [OF h1 h2 h3 h4 h5] by simp
qed

section \<open>The league argument\<close>

lemma upper_canonical: "upper ''NBA'' = ''NBA''" "upper ''NHL'' = ''NHL''"
  by code_simp+

lemma fetch_supported:
  assumes "map_of (urls self) (upper league) = Some url" and "url \<noteq> []"
  shows "\<exists>r evs. (\<forall>l. upper l = upper league \<longrightarrow> fetch_injuries self w l = (r, Print (Connecting l) # evs))"
proof -
  obtain evs res where t: "try_body self w url = (evs, res)" by (cases "try_body self w url")
  show ?thesis
  proof (cases res)
    case (Inl e)
    with t assms have "\<forall>l. upper l = upper league \<longrightarrow>
        fetch_injuries self w l = ([], Print (Connecting l) # evs @ [Print (Scraping_error e)])"
      by (simp add: fetch_injuries_def)
    then show ?thesis by blast
  next
    case (Inr rep)
    with t assms have "\<forall>l. upper l = upper league \<longrightarrow>
        fetch_injuries self w l = (rep, Print (Connecting l) # evs)"
      by (simp add: fetch_injuries_def)
    then show ?thesis by blast
  qed
qed

text \<open>
  Claim C10. The league is uppercased before the lookup of its address. When the
  uppercased league is NBA or NHL, the call returns the same report, after the same
  request and the same messages, as the call with the canonical name; the first message
  repeats the league as it was given. When the uppercased league is neither, the call
  returns the empty report after the one message that the league is not supported, and
  makes no request.
\<close>

theorem league_lookup_uppercased:
  "(upper league \<in> {''NBA'', ''NHL''} \<longrightarrow>
      (\<exists>r evs. fetch_injuries RotowireScraper_init w (upper league)
                  = (r, Print (Connecting (upper league)) # evs)
              \<and> fetch_injuries RotowireScraper_init w league
                  = (r, Print (Connecting league) # evs)))
   \<and> (upper league \<notin> {''NBA'', ''NHL''} \<longrightarrow>
        fetch_injuries RotowireScraper_init w league = ([], [Print (League_not_supported league)]))"
proof (intro conjI impI)
  assume s: "upper league \<in> {''NBA'', ''NHL''}"
  then have idem: "upper (upper league) = upper league"
    using upper_canonical by auto
  from s obtain url where u: "map_of (urls RotowireScraper_init) (upper league) = Some url" and n: "url \<noteq> []"
    by (auto simp: RotowireScraper_init_def)
  from fetch_supported [OF u n, of w] obtain r evs where
    a: "\<forall>l. upper l = upper league \<longrightarrow> fetch_injuries RotowireScraper_init w l = (r, Print (Connecting l) # evs)"
    by blast
  from a idem have "fetch_injuries RotowireScraper_init w (upper league)
      = (r, Print (Connecting (upper league)) # evs)" by blast
  moreover from a have "fetch_injuries RotowireScraper_init w league = (r, Print (Connecting league) # evs)"
    by blast
  ultimately show "\<exists>r evs. fetch_injuries RotowireScraper_init w (upper league)
                  = (r, Print (Connecting (upper league)) # evs)
              \<and> fetch_injuries RotowireScraper_init w league
                  = (r, Print (Connecting league) # evs)" by blast
next
  assume "upper league \<notin> {''NBA'', ''NHL''}"
  then show "fetch_injuries RotowireScraper_init w league = ([], [Print (League_not_supported league)])"
    by (simp add: fetch_injuries_def RotowireScraper_init_def)
qed

theorem league_lookup_uppercased_witness:
  "upper ''nba'' = ''NBA''
   \<and> fetch_injuries RotowireScraper_init example_env ''NBA''
       = ([(''LAL vs BOS'', [''LeBron James (OUT)''])],
          [Print (Connecting ''NBA''), Http_get ''https://www.rotowire.com/basketball/nba-lineups.php'',
           Print (Scraped 2 1)])
   \<and> fetch_injuries RotowireScraper_init example_env ''nba''
       = ([(''LAL vs BOS'', [''LeBron James (OUT)''])],
          [Print (Connecting ''nba''), Http_get ''https://www.rotowire.com/basketball/nba-lineups.php'',
           Print (Scraped 2 1)])
   \<and> upper ''mlb'' = ''MLB''
   \<and> fetch_injuries RotowireScraper_init example_env ''mlb'' = ([], [Print (League_not_supported ''mlb'')])"
proof -
  have u: "upper ''nba'' = ''NBA''" by code_simp
  have m: "upper ''mlb'' = ''MLB''" by code_simp
  have c: "fetch_injuries RotowireScraper_init example_env ''NBA''
       = ([(''LAL vs BOS'', [''LeBron James (OUT)''])],
          [Print (Connecting ''NBA''), Http_get ''https://www.rotowire.com/basketball/nba-lineups.php'',
           Print (Scraped 2 1)])" by code_simp
  show ?thesis
    using u m c league_lookup_uppercased [of "''nba''" example_env]
      league_lookup_uppercased [of "''mlb''" example_env]
    by auto
qed

end
